theory Spec2Isabelle
  imports Complex_Main
begin

section \<open>Python values\<close>

text \<open>
  The SDK is dynamically typed: a client method accepts any Python object for any
  parameter and places it into a \<^verbatim>\<open>dict\<close> that becomes the JSON body. The values
  that can travel this way, and the values that \<^verbatim>\<open>response.json()\<close> hands back, are
  the JSON-shaped Python values below. A \<^verbatim>\<open>dict\<close> keeps its keys in insertion order,
  so it is an association list with distinct string keys.
\<close>

datatype pyval =
    PNone
  | PBool bool
  | PInt int
  | PFloat real
  | PStr string
  | PList "pyval list"
  | PDict "(string \<times> pyval) list"

text \<open>Truth value testing, as \<^verbatim>\<open>if x:\<close> and \<^verbatim>\<open>x or y\<close> perform it.\<close>

fun truthy :: "pyval \<Rightarrow> bool" where
  "truthy PNone = False"
| "truthy (PBool b) = b"
| "truthy (PInt i) = (i \<noteq> 0)"
| "truthy (PFloat x) = (x \<noteq> 0)"
| "truthy (PStr s) = (s \<noteq> [])"
| "truthy (PList xs) = (xs \<noteq> [])"
| "truthy (PDict d) = (d \<noteq> [])"

text \<open>\<^verbatim>\<open>type(x).__name__\<close>, which the interpreter prints in an \<^verbatim>\<open>AttributeError\<close>.\<close>

fun type_name :: "pyval \<Rightarrow> string" where
  "type_name PNone = ''NoneType''"
| "type_name (PBool b) = ''bool''"
| "type_name (PInt i) = ''int''"
| "type_name (PFloat x) = ''float''"
| "type_name (PStr s) = ''str''"
| "type_name (PList xs) = ''list''"
| "type_name (PDict d) = ''dict''"

text \<open>\<^verbatim>\<open>d[k] = v\<close>: an existing key keeps its place, a new key goes to the end.\<close>

fun setitem :: "(string \<times> pyval) list \<Rightarrow> string \<Rightarrow> pyval \<Rightarrow> (string \<times> pyval) list" where
  "setitem [] k v = [(k, v)]"
| "setitem ((k', v') # d) k v = (if k' = k then (k, v) # d else (k', v') # setitem d k v)"

text \<open>\<^verbatim>\<open>d.get(k, default)\<close>.\<close>

definition dict_get :: "(string \<times> pyval) list \<Rightarrow> string \<Rightarrow> pyval \<Rightarrow> pyval" where
  "dict_get d k dflt = (case map_of d k of Some v \<Rightarrow> v | None \<Rightarrow> dflt)"

definition keys :: "(string \<times> pyval) list \<Rightarrow> string set" where
  "keys d = fst ` set d"

text \<open>
  A parameter with a default value: \<open>None\<close> is a call that does not pass the argument.
\<close>

definition param :: "'a option \<Rightarrow> 'a \<Rightarrow> 'a" where
  "param supplied dflt = (case supplied of Some v \<Rightarrow> v | None \<Rightarrow> dflt)"

section \<open>Strings\<close>

text \<open>
  \<^verbatim>\<open>str.lower()\<close> on the letters A to Z; every other character of the 8-bit
  \<^typ>\<open>char\<close> is left as it is.
\<close>

definition lower_char :: "char \<Rightarrow> char" where
  "lower_char c =
     (let n = (of_char c :: nat) in if 65 \<le> n \<and> n \<le> 90 then char_of (n + 32) else c)"

definition lower :: "string \<Rightarrow> string" where
  "lower s = map lower_char s"

text \<open>\<^verbatim>\<open>s.rstrip(chars)\<close>: drop the trailing characters that occur in \<open>chars\<close>.\<close>

definition rstrip :: "string \<Rightarrow> string \<Rightarrow> string" where
  "rstrip s chars = rev (dropWhile (\<lambda>c. c \<in> set chars) (rev s))"

text \<open>\<^verbatim>\<open>sep.join(xs)\<close>.\<close>

fun join :: "string \<Rightarrow> string list \<Rightarrow> string" where
  "join sep [] = []"
| "join sep [x] = x"
| "join sep (x # y # ys) = x @ sep @ join sep (y # ys)"

text \<open>\<^verbatim>\<open>str(n)\<close> for an integer, in decimal.\<close>

fun str_nat :: "nat \<Rightarrow> string" where
  "str_nat n =
     (if n < 10 then [char_of (48 + n)]
      else str_nat (n div 10) @ [char_of (48 + n mod 10)])"

definition str_int :: "int \<Rightarrow> string" where
  "str_int i = (if i < 0 then CHR ''-'' # str_nat (nat (- i)) else str_nat (nat i))"

section \<open>Exceptions (exceptions.py) and the HTTP library\<close>

text \<open>
  What the SDK reads of a \<^verbatim>\<open>requests.Response\<close>: the status code, the reason
  phrase, the final URL, the body text, and what \<^verbatim>\<open>.json()\<close> does with the body:
  \<open>Inr v\<close> when it decodes to \<open>v\<close>, \<open>Inl m\<close> when decoding raises a
  \<^verbatim>\<open>JSONDecodeError\<close> whose text is \<open>m\<close>.
\<close>

record response =
  resp_status_code :: int
  resp_reason :: string
  resp_url :: string
  resp_text :: string
  resp_json :: "string + pyval"

text \<open>
  The \<^verbatim>\<open>status_code\<close> attribute of a \<^verbatim>\<open>FuryAPIError\<close> holds whatever object the
  constructor was given: \<^verbatim>\<open>None\<close>, an integer, or a response object.
\<close>

datatype status = NoStatus | StatusInt int | StatusResponse response

datatype py_exc =
    FuryAPIError status pyval pyval
  | ValueError string
  | AttributeError string

text \<open>
  \<^verbatim>\<open>FuryAPIError.__init__(status_code=None, message="", error_data=None)\<close>:
  the payload is \<^verbatim>\<open>error_data or {}\<close>.
\<close>

definition FuryAPIError_init :: "status \<Rightarrow> pyval \<Rightarrow> pyval option \<Rightarrow> py_exc" where
  "FuryAPIError_init status_code message error_data =
     (let error_data = param error_data PNone
      in FuryAPIError status_code message
           (if truthy error_data then error_data else PDict []))"

text \<open>
  \<^verbatim>\<open>Response.raise_for_status()\<close> of the \<^verbatim>\<open>requests\<close> library: \<open>Some m\<close> when it
  raises \<^verbatim>\<open>HTTPError(m, response=self)\<close>, \<open>None\<close> when it returns.
\<close>

definition raise_for_status :: "response \<Rightarrow> string option" where
  "raise_for_status r =
     (let http_error_msg =
        (if 400 \<le> resp_status_code r \<and> resp_status_code r < 500 then
           str_int (resp_status_code r) @ '' Client Error: '' @ resp_reason r
             @ '' for url: '' @ resp_url r
         else if 500 \<le> resp_status_code r \<and> resp_status_code r < 600 then
           str_int (resp_status_code r) @ '' Server Error: '' @ resp_reason r
             @ '' for url: '' @ resp_url r
         else [])
      in if http_error_msg \<noteq> [] then Some http_error_msg else None)"

text \<open>
  \<^verbatim>\<open>Response.__bool__\<close> returns \<^verbatim>\<open>self.ok\<close>: a response with a 4xx or 5xx status
  is falsy.
\<close>

definition ok :: "response \<Rightarrow> bool" where
  "ok r = (raise_for_status r = None)"

text \<open>
  One call of \<^verbatim>\<open>Session.request(method, url, **kwargs)\<close>, as the transport sees it.
  The only keyword argument the SDK ever passes is \<^verbatim>\<open>json=\<close>.
\<close>

record http_call =
  call_method :: string
  call_url :: string
  call_headers :: "(string \<times> string) list"
  call_json :: "pyval option"

text \<open>
  What the call does: it raises a \<^verbatim>\<open>RequestException\<close> \<open>e\<close> (with \<^verbatim>\<open>str(e)\<close> and
  \<^verbatim>\<open>e.response\<close>), or it returns a response. The network and the server are the
  environment: a transport maps the calls made so far and the present call to its outcome.
\<close>

datatype outcome = Raises string "response option" | Returns response

type_synonym transport = "http_call list \<Rightarrow> http_call \<Rightarrow> outcome"

section \<open>Protocol names (models.py)\<close>

definition RAYDIUM :: string where "RAYDIUM = ''raydium''"
definition JUPITER :: string where "JUPITER = ''jupiter''"
definition PUMPFUN :: string where "PUMPFUN = ''pumpfun''"
definition MOONSHOT :: string where "MOONSHOT = ''moonshot''"
definition PUMPSWAP :: string where "PUMPSWAP = ''pumpswap''"
definition AUTO :: string where "AUTO = ''auto''"

definition "values" :: "string list" where
  "values = [RAYDIUM, JUPITER, PUMPFUN, MOONSHOT, PUMPSWAP, AUTO]"

definition validate :: "string \<Rightarrow> py_exc + string" where
  "validate protocol =
     (if lower protocol \<notin> set values then
        Inl (ValueError (''Invalid protocol: '' @ protocol @ ''. Must be one of: ''
               @ join '', '' values))
      else Inr (lower protocol))"

section \<open>The dispatcher (fury-sdk.py)\<close>

text \<open>
  The session of the \<^verbatim>\<open>requests\<close> library: the headers the SDK has set on it, and the
  calls made through it, oldest first. The log stands for the outside world: every
  \<^verbatim>\<open>Session.request\<close> call is appended to it.
\<close>

record session =
  headers :: "(string \<times> string) list"
  sent :: "http_call list"

record FurySDK =
  base_url :: string
  api_key :: "string option"
  session :: session

text \<open>
  \<^verbatim>\<open>FurySDK.__init__(base_url, api_key=None)\<close>. The five client objects only hold a
  reference to the SDK, so a client method below takes the SDK itself.
\<close>

definition FurySDK_init :: "string \<Rightarrow> string option \<Rightarrow> FurySDK" where
  "FurySDK_init base_url' api_key' =
     \<lparr>base_url = rstrip base_url' ''/'',
      api_key = api_key',
      session =
        \<lparr>headers =
           (case api_key' of
              Some k \<Rightarrow> if k \<noteq> [] then [(''Authorization'', ''Bearer '' @ k)] else []
            | None \<Rightarrow> []),
         sent = []\<rparr>\<rparr>"

text \<open>
  The \<^verbatim>\<open>except requests.exceptions.RequestException as e\<close> block of \<^verbatim>\<open>request\<close>,
  for an exception with \<^verbatim>\<open>str(e) = msg\<close> and \<^verbatim>\<open>e.response = resp\<close>; the result is the
  exception that leaves the block.
  \<^item> With a response whose body decodes, \<^verbatim>\<open>error_data.get\<close> is called on the decoded
    value: only a \<^verbatim>\<open>dict\<close> has that method, any other value raises an
    \<^verbatim>\<open>AttributeError\<close>, which \<^verbatim>\<open>except ValueError\<close> does not catch.
  \<^item> The fallback passes \<^verbatim>\<open>getattr(e, 'response', None) and e.response.status_code\<close>:
    \<^verbatim>\<open>x and y\<close> is \<^verbatim>\<open>x\<close> itself when \<^verbatim>\<open>x\<close> is falsy.
\<close>

definition request_except :: "string \<Rightarrow> response option \<Rightarrow> py_exc" where
  "request_except msg resp =
     (let fallback =
        FuryAPIError_init
          (case resp of
             None \<Rightarrow> NoStatus
           | Some r \<Rightarrow> if ok r then StatusInt (resp_status_code r) else StatusResponse r)
          (PStr msg) None
      in case resp of
           None \<Rightarrow> fallback
         | Some r \<Rightarrow>
             (case resp_json r of
                Inl decode_error \<Rightarrow> fallback
              | Inr error_data \<Rightarrow>
                  (case error_data of
                     PDict d \<Rightarrow>
                       FuryAPIError_init (StatusInt (resp_status_code r))
                         (dict_get d ''message'' (PStr msg)) (Some error_data)
                   | _ \<Rightarrow>
                       AttributeError
                         ([CHR 0x27] @ type_name error_data
                            @ [CHR 0x27] @ '' object has no attribute ''
                            @ [CHR 0x27] @ ''get'' @ [CHR 0x27]))))"

text \<open>
  \<^verbatim>\<open>FurySDK.request(method, endpoint, **kwargs)\<close>. The result is what the call returns
  (\<open>Inr\<close>) or raises (\<open>Inl\<close>), and the SDK afterwards. A body that does not decode on
  the success path raises the library's \<^verbatim>\<open>JSONDecodeError\<close>, a
  \<^verbatim>\<open>RequestException\<close> without a response (requests 2.27 and later), so it reaches the
  same \<^verbatim>\<open>except\<close> block.
\<close>

definition request ::
  "FurySDK \<Rightarrow> transport \<Rightarrow> string \<Rightarrow> string \<Rightarrow> pyval option \<Rightarrow> (py_exc + pyval) \<times> FurySDK" where
  "request self tr method endpoint json =
     (let url = base_url self @ endpoint;
          call = \<lparr>call_method = method, call_url = url,
                  call_headers = headers (session self), call_json = json\<rparr>;
          self' = self\<lparr>session := (session self)\<lparr>sent := sent (session self) @ [call]\<rparr>\<rparr>
      in (case tr (sent (session self)) call of
            Raises msg resp \<Rightarrow> Inl (request_except msg resp)
          | Returns r \<Rightarrow>
              (case raise_for_status r of
                 Some msg \<Rightarrow> Inl (request_except msg (Some r))
               | None \<Rightarrow>
                   (case resp_json r of
                      Inr v \<Rightarrow> Inr v
                    | Inl msg \<Rightarrow> Inl (request_except msg None))),
          self'))"

definition health_check :: "FurySDK \<Rightarrow> transport \<Rightarrow> (py_exc + pyval) \<times> FurySDK" where
  "health_check self tr = request self tr ''GET'' ''/health'' None"

section \<open>The domain clients (clients.py)\<close>

text \<open>
  Every method takes the SDK its client was built with and the transport, then its own
  parameters in the order of the source. A parameter that has a default value in the
  source is an option here and is named with a prime; \<^const>\<open>param\<close> puts the default in.
\<close>

subsection \<open>TokensClient\<close>

definition buy ::
  "FurySDK \<Rightarrow> transport \<Rightarrow> pyval \<Rightarrow> pyval \<Rightarrow> pyval \<Rightarrow> pyval option
     \<Rightarrow> pyval option \<Rightarrow> pyval option \<Rightarrow> pyval option \<Rightarrow> pyval option \<Rightarrow> (py_exc + pyval) \<times> FurySDK" where
  "buy sdk tr wallet_addresses token_address sol_amount protocol' affiliate_address'
       affiliate_fee' jito_tip_lamports' slippage_bps' =
     (let protocol = param protocol' (PStr ''auto'');
          affiliate_address = param affiliate_address' PNone;
          affiliate_fee = param affiliate_fee' PNone;
          jito_tip_lamports = param jito_tip_lamports' PNone;
          slippage_bps = param slippage_bps' PNone;
          data = [(''walletAddresses'', wallet_addresses),
                  (''tokenAddress'', token_address),
                  (''solAmount'', sol_amount),
                  (''protocol'', protocol)];
          data = (if truthy affiliate_address
                  then setitem data ''affiliateAddress'' affiliate_address else data);
          data = (if truthy affiliate_fee
                  then setitem data ''affiliateFee'' affiliate_fee else data);
          data = (if truthy jito_tip_lamports
                  then setitem data ''jitoTipLamports'' jito_tip_lamports else data);
          data = (if truthy slippage_bps
                  then setitem data ''slippageBps'' slippage_bps else data)
      in request sdk tr ''POST'' ''/api/tokens/buy'' (Some (PDict data)))"

definition sell ::
  "FurySDK \<Rightarrow> transport \<Rightarrow> pyval \<Rightarrow> pyval \<Rightarrow> pyval option \<Rightarrow> pyval option
     \<Rightarrow> pyval option \<Rightarrow> pyval option \<Rightarrow> pyval option \<Rightarrow> pyval option \<Rightarrow> (py_exc + pyval) \<times> FurySDK" where
  "sell sdk tr wallet_addresses token_address percentage' protocol' affiliate_address'
       affiliate_fee' jito_tip_lamports' slippage_bps' =
     (let percentage = param percentage' (PInt 100);
          protocol = param protocol' (PStr ''auto'');
          affiliate_address = param affiliate_address' PNone;
          affiliate_fee = param affiliate_fee' PNone;
          jito_tip_lamports = param jito_tip_lamports' PNone;
          slippage_bps = param slippage_bps' PNone;
          data = [(''walletAddresses'', wallet_addresses),
                  (''tokenAddress'', token_address),
                  (''percentage'', percentage),
                  (''protocol'', protocol)];
          data = (if truthy affiliate_address
                  then setitem data ''affiliateAddress'' affiliate_address else data);
          data = (if truthy affiliate_fee
                  then setitem data ''affiliateFee'' affiliate_fee else data);
          data = (if truthy jito_tip_lamports
                  then setitem data ''jitoTipLamports'' jito_tip_lamports else data);
          data = (if truthy slippage_bps
                  then setitem data ''slippageBps'' slippage_bps else data)
      in request sdk tr ''POST'' ''/api/tokens/sell'' (Some (PDict data)))"

definition transfer ::
  "FurySDK \<Rightarrow> transport \<Rightarrow> pyval \<Rightarrow> pyval \<Rightarrow> pyval \<Rightarrow> pyval \<Rightarrow> (py_exc + pyval) \<times> FurySDK" where
  "transfer sdk tr sender_public_key receiver token_address amount =
     (let data = [(''senderPublicKey'', sender_public_key),
                  (''receiver'', receiver),
                  (''tokenAddress'', token_address),
                  (''amount'', amount)]
      in request sdk tr ''POST'' ''/api/tokens/transfer'' (Some (PDict data)))"

definition create ::
  "FurySDK \<Rightarrow> transport \<Rightarrow> pyval \<Rightarrow> pyval \<Rightarrow> pyval \<Rightarrow> pyval \<Rightarrow> (py_exc + pyval) \<times> FurySDK" where
  "create sdk tr wallet_addresses mint_pubkey config amounts =
     (let data = [(''walletAddresses'', wallet_addresses),
                  (''mintPubkey'', mint_pubkey),
                  (''config'', config),
                  (''amounts'', amounts)]
      in request sdk tr ''POST'' ''/api/tokens/create'' (Some (PDict data)))"

definition burn ::
  "FurySDK \<Rightarrow> transport \<Rightarrow> pyval \<Rightarrow> pyval \<Rightarrow> pyval \<Rightarrow> (py_exc + pyval) \<times> FurySDK" where
  "burn sdk tr wallet_public_key token_address amount =
     (let data = [(''walletPublicKey'', wallet_public_key),
                  (''tokenAddress'', token_address),
                  (''amount'', amount)]
      in request sdk tr ''POST'' ''/api/tokens/burn'' (Some (PDict data)))"

definition cleaner ::
  "FurySDK \<Rightarrow> transport \<Rightarrow> pyval \<Rightarrow> pyval \<Rightarrow> pyval \<Rightarrow> pyval \<Rightarrow> pyval
     \<Rightarrow> (py_exc + pyval) \<times> FurySDK" where
  "cleaner sdk tr seller_address buyer_address token_address sell_percentage buy_percentage =
     (let data = [(''sellerAddress'', seller_address),
                  (''buyerAddress'', buyer_address),
                  (''tokenAddress'', token_address),
                  (''sellPercentage'', sell_percentage),
                  (''buyPercentage'', buy_percentage)]
      in request sdk tr ''POST'' ''/api/tokens/cleaner'' (Some (PDict data)))"

subsection \<open>TransactionsClient\<close>

definition send ::
  "FurySDK \<Rightarrow> transport \<Rightarrow> pyval \<Rightarrow> pyval option \<Rightarrow> (py_exc + pyval) \<times> FurySDK" where
  "send sdk tr transactions use_rpc' =
     (let use_rpc = param use_rpc' (PBool False);
          data = [(''transactions'', transactions),
                  (''useRpc'', use_rpc)]
      in request sdk tr ''POST'' ''/api/transactions/send'' (Some (PDict data)))"

subsection \<open>AnalyticsClient\<close>

definition calculate_pnl ::
  "FurySDK \<Rightarrow> transport \<Rightarrow> pyval \<Rightarrow> pyval option \<Rightarrow> pyval option \<Rightarrow> (py_exc + pyval) \<times> FurySDK" where
  "calculate_pnl sdk tr addresses token_address' include_timestamp' =
     (let token_address = param token_address' PNone;
          include_timestamp = param include_timestamp' (PBool False);
          data = [(''addresses'', addresses)];
          data = (if truthy token_address
                  then setitem data ''tokenAddress'' token_address else data);
          data = (if truthy include_timestamp
                  then setitem data ''options'' (PDict [(''includeTimestamp'', PBool True)])
                  else data)
      in request sdk tr ''POST'' ''/api/analytics/pnl'' (Some (PDict data)))"

subsection \<open>UtilitiesClient\<close>

definition generate_mint :: "FurySDK \<Rightarrow> transport \<Rightarrow> (py_exc + pyval) \<times> FurySDK" where
  "generate_mint sdk tr = request sdk tr ''GET'' ''/api/utilities/generate-mint'' None"

subsection \<open>WalletsClient\<close>

definition distribute ::
  "FurySDK \<Rightarrow> transport \<Rightarrow> pyval \<Rightarrow> pyval \<Rightarrow> (py_exc + pyval) \<times> FurySDK" where
  "distribute sdk tr sender recipients =
     (let data = [(''sender'', sender),
                  (''recipients'', recipients)]
      in request sdk tr ''POST'' ''/api/wallets/distribute'' (Some (PDict data)))"

definition consolidate ::
  "FurySDK \<Rightarrow> transport \<Rightarrow> pyval \<Rightarrow> pyval \<Rightarrow> pyval option \<Rightarrow> pyval option \<Rightarrow> (py_exc + pyval) \<times> FurySDK" where
  "consolidate sdk tr source_addresses receiver_address percentage' token_address' =
     (let percentage = param percentage' (PInt 100);
          token_address = param token_address' PNone;
          data = [(''sourceAddresses'', source_addresses),
                  (''receiverAddress'', receiver_address),
                  (''percentage'', percentage)];
          data = (if truthy token_address
                  then setitem data ''tokenAddress'' token_address else data)
      in request sdk tr ''POST'' ''/api/wallets/consolidate'' (Some (PDict data)))"

section \<open>Observing a call\<close>

text \<open>
  Between \<open>sdk\<close> and \<open>sdk'\<close> exactly one HTTP call went out: the given method, the
  stored base URL followed by the given path, the session's headers, the given JSON body.
\<close>

definition issues_one :: "FurySDK \<Rightarrow> FurySDK \<Rightarrow> string \<Rightarrow> string \<Rightarrow> pyval option \<Rightarrow> bool" where
  "issues_one sdk sdk' method path body \<longleftrightarrow>
     sent (session sdk') = sent (session sdk) @
       [\<lparr>call_method = method, call_url = base_url sdk @ path,
         call_headers = headers (session sdk), call_json = body\<rparr>]"

text \<open>The base URL, the API key and the session's headers are the same in both.\<close>

definition credentials_kept :: "FurySDK \<Rightarrow> FurySDK \<Rightarrow> bool" where
  "credentials_kept sdk sdk' \<longleftrightarrow>
     base_url sdk' = base_url sdk \<and> api_key sdk' = api_key sdk
       \<and> headers (session sdk') = headers (session sdk)"

section \<open>Example servers\<close>

text \<open>A transport that answers every call with the same response.\<close>

definition replies :: "response \<Rightarrow> transport" where
  "replies r calls call = Returns r"

definition example_sdk :: FurySDK where
  "example_sdk = FurySDK_init ''https://api.fury.bot/'' (Some ''secret'')"

definition resp_ok :: response where
  "resp_ok = \<lparr>resp_status_code = 200, resp_reason = ''OK'',
     resp_url = ''https://api.fury.bot/api/tokens/buy'', resp_text = ''{}'',
     resp_json = Inr (PDict [])\<rparr>"

definition resp_500 :: response where
  "resp_500 = \<lparr>resp_status_code = 500, resp_reason = ''Internal Server Error'',
     resp_url = ''https://api.fury.bot/health'',
     resp_text = ''<h1>Internal Server Error</h1>'',
     resp_json = Inl ''Expecting value: line 1 column 1 (char 0)''\<rparr>"

definition resp_400 :: response where
  \<open>resp_400 = \<lparr>resp_status_code = 400, resp_reason = ''Bad Request'',
     resp_url = ''https://api.fury.bot/api/tokens/buy'',
     resp_text = ''{"message": "insufficient balance"}'',
     resp_json = Inr (PDict [(''message'', PStr ''insufficient balance'')])\<rparr>\<close>

definition resp_400_list :: response where
  \<open>resp_400_list = \<lparr>resp_status_code = 400, resp_reason = ''Bad Request'',
     resp_url = ''https://api.fury.bot/api/utilities/generate-mint'',
     resp_text = ''["bad request"]'',
     resp_json = Inr (PList [PStr ''bad request''])\<rparr>\<close>

section \<open>Basic facts\<close>

lemma example_sdk_eq:
  "example_sdk = \<lparr>base_url = ''https://api.fury.bot'', api_key = Some ''secret'',
      session = \<lparr>headers = [(''Authorization'', ''Bearer secret'')], sent = []\<rparr>\<rparr>"
  by (simp add: example_sdk_def FurySDK_init_def rstrip_def)

lemma str_int_500: "str_int 500 = ''500''"
  by code_simp

lemma str_int_400: "str_int 400 = ''400''"
  by code_simp

lemma request_sent:
  "sent (session (snd (request self tr m e j))) = sent (session self) @
     [\<lparr>call_method = m, call_url = base_url self @ e,
       call_headers = headers (session self), call_json = j\<rparr>]"
  by (simp add: request_def Let_def)

lemma request_issues_one: "issues_one self (snd (request self tr m e j)) m e j"
  by (simp add: issues_one_def request_sent)

lemma request_credentials_kept: "credentials_kept self (snd (request self tr m e j))"
  by (simp add: request_def credentials_kept_def Let_def)

lemma keys_setitem: "keys (setitem d k v) = insert k (keys d)"
  by (induction d k v rule: setitem.induct) (auto simp: keys_def)

lemma keys_Cons: "keys ((k, v) # d) = insert k (keys d)"
  by (simp add: keys_def)

lemma keys_Nil: "keys [] = {}"
  by (simp add: keys_def)

text \<open>The falsy values are \<open>None\<close>, \<open>False\<close>, zero and the empty string, list and dictionary.\<close>

lemma falsy_iff:
  "\<not> truthy v \<longleftrightarrow>
     v \<in> {PNone, PBool False, PInt 0, PFloat 0, PStr [], PList [], PDict []}"
  by (cases v) auto

lemma map_of_setitem: "map_of (setitem d k v) k' = (if k' = k then Some v else map_of d k')"
  by (induction d k v rule: setitem.induct) auto

subsection \<open>Protocol names\<close>

lemma values_eq:
  "set values = {''raydium'', ''jupiter'', ''pumpfun'', ''moonshot'', ''pumpswap'', ''auto''}"
  by (simp add: values_def RAYDIUM_def JUPITER_def PUMPFUN_def MOONSHOT_def PUMPSWAP_def AUTO_def)

lemma lower_examples:
  "lower ''raydium'' = ''raydium''" "lower ''Jupiter'' = ''jupiter''"
  "lower ''PUMPFUN'' = ''pumpfun''" "lower ''moonshot'' = ''moonshot''"
  "lower ''pumpswap'' = ''pumpswap''" "lower ''AUTO'' = ''auto''"
  "lower ''invalid'' = ''invalid''"
  by code_simp+

lemma validate_invalid:
  "validate ''invalid'' = Inl (ValueError
     ''Invalid protocol: invalid. Must be one of: raydium, jupiter, pumpfun, moonshot, pumpswap, auto'')"
  by (simp add: validate_def lower_examples values_def RAYDIUM_def JUPITER_def PUMPFUN_def
      MOONSHOT_def PUMPSWAP_def AUTO_def)

subsection \<open>Trailing slashes\<close>

lemma takeWhile_same:
  "takeWhile (\<lambda>x. x = c) xs = replicate (length (takeWhile (\<lambda>x. x = c) xs)) c"
  by (induction xs) auto

text \<open>
  Every string is a part that does not end in \<open>c\<close> followed by a run of \<open>c\<close>, and
  \<^const>\<open>rstrip\<close> returns the first part.
\<close>

lemma rstrip_decomp:
  "\<exists>n. s = rstrip s [c] @ replicate n c \<and> (rstrip s [c] = [] \<or> last (rstrip s [c]) \<noteq> c)"
proof -
  let ?P = "\<lambda>x. x = c"
  let ?n = "length (takeWhile ?P (rev s))"
  have "rev s = takeWhile ?P (rev s) @ dropWhile ?P (rev s)" by simp
  then have "rev s = replicate ?n c @ dropWhile ?P (rev s)"
    using takeWhile_same [of c "rev s"] by simp
  then have "rev (rev s) = rev (replicate ?n c @ dropWhile ?P (rev s))" by simp
  then have a: "s = rstrip s [c] @ replicate ?n c"
    by (simp add: rstrip_def)
  have b: "rstrip s [c] = [] \<or> last (rstrip s [c]) \<noteq> c"
  proof (cases "dropWhile ?P (rev s)")
    case Nil
    then show ?thesis by (simp add: rstrip_def)
  next
    case (Cons y ys)
    then have "\<not> ?P (hd (dropWhile ?P (rev s)))" using hd_dropWhile [of ?P "rev s"] by simp
    then show ?thesis using Cons by (simp add: rstrip_def last_rev)
  qed
  from a b show ?thesis by blast
qed

lemma rstrip_trailing:
  assumes "b = [] \<or> last b \<noteq> c"
  shows "rstrip (b @ replicate n c) [c] = b"
proof -
  have "dropWhile (\<lambda>x. x = c) (replicate n c @ rev b) = dropWhile (\<lambda>x. x = c) (rev b)"
    by (induction n) simp_all
  also have "\<dots> = rev b"
  proof (cases "rev b")
    case Nil
    then show ?thesis by simp
  next
    case (Cons y ys)
    then have "b \<noteq> []" by auto
    then have "last b \<noteq> c" using assms by simp
    then have "y \<noteq> c" using Cons \<open>b \<noteq> []\<close> by (simp add: last_rev [symmetric] del: last_rev)
    then show ?thesis using Cons by simp
  qed
  finally show ?thesis by (simp add: rstrip_def)
qed

section \<open>The request URL\<close>

text \<open>
  C5. Take any base URL, written as a part \<open>b\<close> that does not end in a slash followed by
  any number \<open>n\<close> of trailing slashes (none, one or several; by \<open>rstrip_decomp\<close> every
  string has this form), and any endpoint path that begins with a slash. The SDK built from
  this base URL sends its request to \<open>b\<close>, one slash, and the rest of the path: the
  separator is neither doubled nor missing, whatever \<open>n\<close> is and whatever the HTTP method.
\<close>

theorem request_url_one_separator:
  assumes "base = b @ replicate n (CHR ''/'')" and "b = [] \<or> last b \<noteq> CHR ''/''"
  shows "map call_url (sent (session (snd
           (request (FurySDK_init base key) tr m (CHR ''/'' # rest) j))))
         = [b @ [CHR ''/''] @ rest]"
  using assms by (simp add: request_sent FurySDK_init_def rstrip_trailing)

theorem request_url_one_separator_witness:
  "''https://api.fury.bot//'' = ''https://api.fury.bot'' @ replicate 2 (CHR ''/'')
     \<and> (''https://api.fury.bot'' = [] \<or> last ''https://api.fury.bot'' \<noteq> CHR ''/'')
     \<and> map call_url (sent (session (snd (request (FurySDK_init ''https://api.fury.bot//'' None)
            (replies resp_ok) ''GET'' ''/health'' None))))
          = [''https://api.fury.bot/health'']"
proof -
  have a: "''https://api.fury.bot//'' = ''https://api.fury.bot'' @ replicate 2 (CHR ''/'')"
    by (simp add: numeral_2_eq_2)
  have b: "''https://api.fury.bot'' = [] \<or> last ''https://api.fury.bot'' \<noteq> CHR ''/''"
    by simp
  show ?thesis
    using a b request_url_one_separator [OF a b, of None "replies resp_ok" "''GET''" "''health''" None]
    by simp
qed

section \<open>Protocol validation\<close>

text \<open>
  C2. \<open>Protocol.validate\<close> lower-cases its argument. When the lower-case form is one of
  raydium, jupiter, pumpfun, moonshot, pumpswap, auto, whatever the casing of the argument,
  it returns that lower-case form; when it is none of the six, it raises a \<open>ValueError\<close>.
\<close>

theorem validate_accepts_six:
  "(lower p \<in> {''raydium'', ''jupiter'', ''pumpfun'', ''moonshot'', ''pumpswap'', ''auto''}
      \<longrightarrow> validate p = Inr (lower p))
   \<and> (lower p \<notin> {''raydium'', ''jupiter'', ''pumpfun'', ''moonshot'', ''pumpswap'', ''auto''}
      \<longrightarrow> (\<exists>m. validate p = Inl (ValueError m)))"
  unfolding values_eq [symmetric] by (simp add: validate_def)

theorem validate_accepts_six_witness:
  "validate ''raydium'' = Inr ''raydium'' \<and> validate ''Jupiter'' = Inr ''jupiter''
   \<and> validate ''PUMPFUN'' = Inr ''pumpfun'' \<and> validate ''moonshot'' = Inr ''moonshot''
   \<and> validate ''pumpswap'' = Inr ''pumpswap'' \<and> validate ''AUTO'' = Inr ''auto''
   \<and> (\<exists>m. validate ''invalid'' = Inl (ValueError m))"
  using validate_accepts_six [of "''raydium''"] validate_accepts_six [of "''Jupiter''"]
    validate_accepts_six [of "''PUMPFUN''"] validate_accepts_six [of "''moonshot''"]
    validate_accepts_six [of "''pumpswap''"] validate_accepts_six [of "''AUTO''"]
    validate_accepts_six [of "''invalid''"]
  by (simp add: lower_examples)

text \<open>
  \<open>tokens.buy\<close> never calls \<open>Protocol.validate\<close>, and neither does any other client
  method. Against a server that answers 200 with an empty JSON object, a buy with protocol
  \<open>invalid\<close> returns that object, and one POST carrying the protocol as given has gone out:
  no local validation error, and not zero requests.
\<close>

theorem buy_invalid_protocol_counterexample:
  "fst (buy example_sdk (replies resp_ok) (PList [PStr ''W1'']) (PStr ''T1'') (PInt 1)
         (Some (PStr ''invalid'')) None None None None) = Inr (PDict [])
   \<and> sent (session (snd (buy example_sdk (replies resp_ok) (PList [PStr ''W1'']) (PStr ''T1'') (PInt 1)
         (Some (PStr ''invalid'')) None None None None))) =
       [\<lparr>call_method = ''POST'', call_url = ''https://api.fury.bot/api/tokens/buy'',
         call_headers = [(''Authorization'', ''Bearer secret'')],
         call_json = Some (PDict [(''walletAddresses'', PList [PStr ''W1'']),
           (''tokenAddress'', PStr ''T1''), (''solAmount'', PInt 1),
           (''protocol'', PStr ''invalid'')])\<rparr>]"
  by (simp add: buy_def param_def request_def Let_def example_sdk_eq replies_def resp_ok_def
      raise_for_status_def)

text \<open>
  C1, as the code has it. A protocol argument passed to \<open>tokens.buy\<close> is not validated
  locally, whether or not it is one of the six accepted values: the call is the
  dispatcher's \<open>request\<close>, invoked once, and it sends one POST to \<open>/api/tokens/buy\<close>
  whose body holds the caller's value under \<open>protocol\<close>, unchanged. The local validation
  failure for \<open>invalid\<close> is what \<open>Protocol.validate\<close> raises when a caller invokes it.
\<close>

theorem buy_forwards_protocol:
  "\<exists>d. buy sdk tr w t s (Some p) aa af jt sb
          = request sdk tr ''POST'' ''/api/tokens/buy'' (Some (PDict d))
      \<and> issues_one sdk (snd (buy sdk tr w t s (Some p) aa af jt sb))
          ''POST'' ''/api/tokens/buy'' (Some (PDict d))
      \<and> map_of d ''protocol'' = Some p
      \<and> validate ''invalid'' = Inl (ValueError
     ''Invalid protocol: invalid. Must be one of: raydium, jupiter, pumpfun, moonshot, pumpswap, auto'')"
  unfolding buy_def Let_def
  apply (intro exI conjI)
     apply (rule refl)
    apply (rule request_issues_one)
   apply (simp add: map_of_setitem param_def)
  apply (rule validate_invalid)
  done

section \<open>Error normalisation in the dispatcher\<close>

text \<open>
  A server answers \<open>GET /health\<close> with status 500 and an HTML body. The error raised
  carries the text of the library's \<open>HTTPError\<close> as its message, which is not the body
  text of the response. Its \<open>status_code\<close> attribute is the response object: the
  fallback computes it with \<open>and\<close>, and a 5xx response is falsy.
\<close>

theorem request_500_counterexample:
  "fst (request example_sdk (replies resp_500) ''GET'' ''/health'' None)
     = Inl (FuryAPIError (StatusResponse resp_500)
         (PStr ''500 Server Error: Internal Server Error for url: https://api.fury.bot/health'')
         (PDict []))
   \<and> ''500 Server Error: Internal Server Error for url: https://api.fury.bot/health''
       \<noteq> resp_text resp_500"
  by (simp add: request_def Let_def replies_def raise_for_status_def resp_500_def str_int_500
      request_except_def FuryAPIError_init_def param_def ok_def)

text \<open>
  C3, as the code has it. When the transport returns a response with status 500 whose body
  is not decodable JSON, \<open>request\<close> raises an API error whose message is the text of the
  HTTP error, \<open>500 Server Error: <reason> for url: <url>\<close>, and whose payload is the
  empty dictionary.
\<close>

theorem request_500_non_json:
  assumes "tr (sent (session self))
             \<lparr>call_method = m, call_url = base_url self @ e,
              call_headers = headers (session self), call_json = j\<rparr> = Returns r"
    and "resp_status_code r = 500"
    and "resp_json r = Inl decode_error"
  shows "\<exists>sc. fst (request self tr m e j)
           = Inl (FuryAPIError sc
               (PStr (''500 Server Error: '' @ resp_reason r @ '' for url: '' @ resp_url r))
               (PDict []))"
  using assms
  by (simp add: request_def Let_def raise_for_status_def str_int_500
      request_except_def FuryAPIError_init_def param_def)

theorem request_500_non_json_witness:
  "replies resp_500 (sent (session example_sdk))
       \<lparr>call_method = ''GET'', call_url = base_url example_sdk @ ''/health'',
        call_headers = headers (session example_sdk), call_json = None\<rparr> = Returns resp_500
   \<and> resp_status_code resp_500 = 500
   \<and> resp_json resp_500 = Inl ''Expecting value: line 1 column 1 (char 0)''
   \<and> (\<exists>sc. fst (request example_sdk (replies resp_500) ''GET'' ''/health'' None)
           = Inl (FuryAPIError sc
               (PStr ''500 Server Error: Internal Server Error for url: https://api.fury.bot/health'')
               (PDict [])))"
proof -
  have a: "replies resp_500 (sent (session example_sdk))
       \<lparr>call_method = ''GET'', call_url = base_url example_sdk @ ''/health'',
        call_headers = headers (session example_sdk), call_json = None\<rparr> = Returns resp_500"
    by (simp add: replies_def)
  have b: "resp_status_code resp_500 = 500" by (simp add: resp_500_def)
  have c: "resp_json resp_500 = Inl ''Expecting value: line 1 column 1 (char 0)''"
    by (simp add: resp_500_def)
  have d: "resp_reason resp_500 = ''Internal Server Error''"
    "resp_url resp_500 = ''https://api.fury.bot/health''"
    by (simp_all add: resp_500_def)
  show ?thesis
    using a b c request_500_non_json [where tr = "replies resp_500" and self = example_sdk
        and m = "''GET''" and e = "''/health''" and j = None and r = resp_500
        and decode_error = "''Expecting value: line 1 column 1 (char 0)''"]
    by (simp add: d)
qed

text \<open>
  C4. When the transport returns a response with status 400 whose body decodes to the JSON
  object \<open>{"message": "insufficient balance"}\<close>, \<open>request\<close> raises an API error with
  status code 400, message \<open>insufficient balance\<close>, and the whole decoded object as its
  payload.
\<close>

theorem request_400_json:
  assumes "tr (sent (session self))
             \<lparr>call_method = m, call_url = base_url self @ e,
              call_headers = headers (session self), call_json = j\<rparr> = Returns r"
    and "resp_status_code r = 400"
    and "resp_json r = Inr (PDict [(''message'', PStr ''insufficient balance'')])"
  shows "fst (request self tr m e j)
           = Inl (FuryAPIError (StatusInt 400) (PStr ''insufficient balance'')
               (PDict [(''message'', PStr ''insufficient balance'')]))"
  using assms
  by (simp add: request_def Let_def raise_for_status_def str_int_400
      request_except_def FuryAPIError_init_def param_def dict_get_def)

theorem request_400_json_witness:
  "replies resp_400 (sent (session example_sdk))
       \<lparr>call_method = ''POST'', call_url = base_url example_sdk @ ''/api/tokens/buy'',
        call_headers = headers (session example_sdk), call_json = Some (PDict [])\<rparr> = Returns resp_400
   \<and> resp_status_code resp_400 = 400
   \<and> resp_json resp_400 = Inr (PDict [(''message'', PStr ''insufficient balance'')])
   \<and> fst (request example_sdk (replies resp_400) ''POST'' ''/api/tokens/buy'' (Some (PDict [])))
           = Inl (FuryAPIError (StatusInt 400) (PStr ''insufficient balance'')
               (PDict [(''message'', PStr ''insufficient balance'')]))"
proof -
  have a: "replies resp_400 (sent (session example_sdk))
       \<lparr>call_method = ''POST'', call_url = base_url example_sdk @ ''/api/tokens/buy'',
        call_headers = headers (session example_sdk), call_json = Some (PDict [])\<rparr> = Returns resp_400"
    by (simp add: replies_def)
  have b: "resp_status_code resp_400 = 400" by (simp add: resp_400_def)
  have c: "resp_json resp_400 = Inr (PDict [(''message'', PStr ''insufficient balance'')])"
    by (simp add: resp_400_def)
  show ?thesis
    using a b c request_400_json [where tr = "replies resp_400" and self = example_sdk
        and m = "''POST''" and e = "''/api/tokens/buy''" and j = "Some (PDict [])"
        and r = resp_400]
    by simp
qed

section \<open>One call per method\<close>

text \<open>
  Every client method, and the health check, is one invocation of \<open>request\<close>, which makes
  one \<open>Session.request\<close> call: the method and path are those of the endpoint table.
\<close>

lemma every_method_one_call:
  "(\<exists>body. issues_one sdk (snd (health_check sdk tr)) ''GET'' ''/health'' body)
   \<and> (\<exists>body. issues_one sdk (snd (buy sdk tr w t s p aa af jt sb)) ''POST'' ''/api/tokens/buy'' body)
   \<and> (\<exists>body. issues_one sdk (snd (sell sdk tr w t pc p aa af jt sb)) ''POST'' ''/api/tokens/sell'' body)
   \<and> (\<exists>body. issues_one sdk (snd (transfer sdk tr spk rcv t amt)) ''POST'' ''/api/tokens/transfer'' body)
   \<and> (\<exists>body. issues_one sdk (snd (create sdk tr w mint cfg amts)) ''POST'' ''/api/tokens/create'' body)
   \<and> (\<exists>body. issues_one sdk (snd (burn sdk tr wpk t amt)) ''POST'' ''/api/tokens/burn'' body)
   \<and> (\<exists>body. issues_one sdk (snd (cleaner sdk tr sa ba t sp bp)) ''POST'' ''/api/tokens/cleaner'' body)
   \<and> (\<exists>body. issues_one sdk (snd (send sdk tr txs rpc)) ''POST'' ''/api/transactions/send'' body)
   \<and> (\<exists>body. issues_one sdk (snd (calculate_pnl sdk tr a ta it)) ''POST'' ''/api/analytics/pnl'' body)
   \<and> (\<exists>body. issues_one sdk (snd (generate_mint sdk tr)) ''GET'' ''/api/utilities/generate-mint'' body)
   \<and> (\<exists>body. issues_one sdk (snd (distribute sdk tr sender rcps)) ''POST'' ''/api/wallets/distribute'' body)
   \<and> (\<exists>body. issues_one sdk (snd (consolidate sdk tr srcs rcv pc ta)) ''POST'' ''/api/wallets/consolidate'' body)"
  unfolding health_check_def buy_def sell_def transfer_def create_def burn_def cleaner_def send_def calculate_pnl_def generate_mint_def distribute_def consolidate_def Let_def
  by (intro conjI exI; rule request_issues_one)

text \<open>
  C7. Every client method makes exactly one request (\<open>every_method_one_call\<close>), but what
  it raises is not always a typed SDK error. A server answers \<open>generate_mint\<close> with status
  400 and the JSON array \<open>["bad request"]\<close>: \<open>request\<close> calls \<open>.get\<close> on the decoded
  list, and the method raises an \<open>AttributeError\<close>, which is neither a \<open>FurySDKError\<close> nor
  a \<open>FuryAPIError\<close>.
\<close>

theorem generate_mint_attribute_error:
  "generate_mint example_sdk (replies resp_400_list)
     = (Inl (AttributeError ([CHR 0x27] @ ''list'' @ [CHR 0x27] @ '' object has no attribute ''
                @ [CHR 0x27] @ ''get'' @ [CHR 0x27])),
        example_sdk\<lparr>session := (session example_sdk)\<lparr>sent :=
          [\<lparr>call_method = ''GET'',
            call_url = ''https://api.fury.bot/api/utilities/generate-mint'',
            call_headers = [(''Authorization'', ''Bearer secret'')], call_json = None\<rparr>]\<rparr>\<rparr>)"
  by (simp add: generate_mint_def request_def Let_def replies_def raise_for_status_def
      resp_400_list_def str_int_400 request_except_def example_sdk_eq)

text \<open>
  C8. \<open>wallets.distribute\<close> with sender \<open>A\<close> and the single recipient
  \<open>{"address": "B", "amount": "10"}\<close> issues exactly one call: a POST to
  \<open>/api/wallets/distribute\<close> whose JSON body is
  \<open>{"sender": "A", "recipients": [{"address": "B", "amount": "10"}]}\<close>.
\<close>

theorem distribute_example:
  "issues_one sdk
     (snd (distribute sdk tr (PStr ''A'')
        (PList [PDict [(''address'', PStr ''B''), (''amount'', PStr ''10'')]])))
     ''POST'' ''/api/wallets/distribute''
     (Some (PDict [(''sender'', PStr ''A''),
        (''recipients'', PList [PDict [(''address'', PStr ''B''), (''amount'', PStr ''10'')]])]))"
  by (simp add: distribute_def Let_def request_issues_one)

section \<open>Optional fields\<close>

text \<open>
  C6. The optional wire fields are those a method adds under an \<open>if\<close>: for buy and sell
  \<open>affiliateAddress\<close>, \<open>affiliateFee\<close>, \<open>jitoTipLamports\<close> and \<open>slippageBps\<close>, for the
  PnL call \<open>tokenAddress\<close> and \<open>options\<close>, for consolidate \<open>tokenAddress\<close>. When the
  caller does not pass the parameter, the method sends one POST whose body is a dictionary
  that has no such key, whatever the other arguments are.
\<close>

theorem unsupplied_optional_omitted:
  "(\<exists>d. issues_one sdk (snd (buy sdk tr w t s p None af jt sb))
          ''POST'' ''/api/tokens/buy'' (Some (PDict d))
        \<and> ''affiliateAddress'' \<notin> keys d)
   \<and> (\<exists>d. issues_one sdk (snd (buy sdk tr w t s p aa None jt sb))
          ''POST'' ''/api/tokens/buy'' (Some (PDict d))
        \<and> ''affiliateFee'' \<notin> keys d)
   \<and> (\<exists>d. issues_one sdk (snd (buy sdk tr w t s p aa af None sb))
          ''POST'' ''/api/tokens/buy'' (Some (PDict d))
        \<and> ''jitoTipLamports'' \<notin> keys d)
   \<and> (\<exists>d. issues_one sdk (snd (buy sdk tr w t s p aa af jt None))
          ''POST'' ''/api/tokens/buy'' (Some (PDict d))
        \<and> ''slippageBps'' \<notin> keys d)
   \<and> (\<exists>d. issues_one sdk (snd (sell sdk tr w t pc p None af jt sb))
          ''POST'' ''/api/tokens/sell'' (Some (PDict d))
        \<and> ''affiliateAddress'' \<notin> keys d)
   \<and> (\<exists>d. issues_one sdk (snd (sell sdk tr w t pc p aa None jt sb))
          ''POST'' ''/api/tokens/sell'' (Some (PDict d))
        \<and> ''affiliateFee'' \<notin> keys d)
   \<and> (\<exists>d. issues_one sdk (snd (sell sdk tr w t pc p aa af None sb))
          ''POST'' ''/api/tokens/sell'' (Some (PDict d))
        \<and> ''jitoTipLamports'' \<notin> keys d)
   \<and> (\<exists>d. issues_one sdk (snd (sell sdk tr w t pc p aa af jt None))
          ''POST'' ''/api/tokens/sell'' (Some (PDict d))
        \<and> ''slippageBps'' \<notin> keys d)
   \<and> (\<exists>d. issues_one sdk (snd (calculate_pnl sdk tr a None it))
          ''POST'' ''/api/analytics/pnl'' (Some (PDict d))
        \<and> ''tokenAddress'' \<notin> keys d)
   \<and> (\<exists>d. issues_one sdk (snd (calculate_pnl sdk tr a ta None))
          ''POST'' ''/api/analytics/pnl'' (Some (PDict d))
        \<and> ''options'' \<notin> keys d)
   \<and> (\<exists>d. issues_one sdk (snd (consolidate sdk tr srcs rcv pc None))
          ''POST'' ''/api/wallets/consolidate'' (Some (PDict d))
        \<and> ''tokenAddress'' \<notin> keys d)"
  by (intro conjI) (simp_all add: buy_def sell_def calculate_pnl_def consolidate_def Let_def param_def issues_one_def request_sent keys_setitem keys_Cons keys_Nil)

text \<open>
  C10. Passing a falsy value (\<open>None\<close>, \<open>False\<close>, zero, an empty string, list or dictionary)
  for one of these parameters is the same as not passing it: the body has no such key, and
  the whole call, its result and the SDK afterwards, equals the call without the argument.
\<close>

theorem falsy_optional_omitted:
  assumes "\<not> truthy v"
  shows "((\<exists>d. issues_one sdk (snd (buy sdk tr w t s p (Some v) af jt sb))
          ''POST'' ''/api/tokens/buy'' (Some (PDict d))
        \<and> ''affiliateAddress'' \<notin> keys d)
      \<and> buy sdk tr w t s p (Some v) af jt sb
        = buy sdk tr w t s p None af jt sb)
   \<and> ((\<exists>d. issues_one sdk (snd (buy sdk tr w t s p aa (Some v) jt sb))
          ''POST'' ''/api/tokens/buy'' (Some (PDict d))
        \<and> ''affiliateFee'' \<notin> keys d)
      \<and> buy sdk tr w t s p aa (Some v) jt sb
        = buy sdk tr w t s p aa None jt sb)
   \<and> ((\<exists>d. issues_one sdk (snd (buy sdk tr w t s p aa af (Some v) sb))
          ''POST'' ''/api/tokens/buy'' (Some (PDict d))
        \<and> ''jitoTipLamports'' \<notin> keys d)
      \<and> buy sdk tr w t s p aa af (Some v) sb
        = buy sdk tr w t s p aa af None sb)
   \<and> ((\<exists>d. issues_one sdk (snd (buy sdk tr w t s p aa af jt (Some v)))
          ''POST'' ''/api/tokens/buy'' (Some (PDict d))
        \<and> ''slippageBps'' \<notin> keys d)
      \<and> buy sdk tr w t s p aa af jt (Some v)
        = buy sdk tr w t s p aa af jt None)
   \<and> ((\<exists>d. issues_one sdk (snd (sell sdk tr w t pc p (Some v) af jt sb))
          ''POST'' ''/api/tokens/sell'' (Some (PDict d))
        \<and> ''affiliateAddress'' \<notin> keys d)
      \<and> sell sdk tr w t pc p (Some v) af jt sb
        = sell sdk tr w t pc p None af jt sb)
   \<and> ((\<exists>d. issues_one sdk (snd (sell sdk tr w t pc p aa (Some v) jt sb))
          ''POST'' ''/api/tokens/sell'' (Some (PDict d))
        \<and> ''affiliateFee'' \<notin> keys d)
      \<and> sell sdk tr w t pc p aa (Some v) jt sb
        = sell sdk tr w t pc p aa None jt sb)
   \<and> ((\<exists>d. issues_one sdk (snd (sell sdk tr w t pc p aa af (Some v) sb))
          ''POST'' ''/api/tokens/sell'' (Some (PDict d))
        \<and> ''jitoTipLamports'' \<notin> keys d)
      \<and> sell sdk tr w t pc p aa af (Some v) sb
        = sell sdk tr w t pc p aa af None sb)
   \<and> ((\<exists>d. issues_one sdk (snd (sell sdk tr w t pc p aa af jt (Some v)))
          ''POST'' ''/api/tokens/sell'' (Some (PDict d))
        \<and> ''slippageBps'' \<notin> keys d)
      \<and> sell sdk tr w t pc p aa af jt (Some v)
        = sell sdk tr w t pc p aa af jt None)
   \<and> ((\<exists>d. issues_one sdk (snd (calculate_pnl sdk tr a (Some v) it))
          ''POST'' ''/api/analytics/pnl'' (Some (PDict d))
        \<and> ''tokenAddress'' \<notin> keys d)
      \<and> calculate_pnl sdk tr a (Some v) it
        = calculate_pnl sdk tr a None it)
   \<and> ((\<exists>d. issues_one sdk (snd (calculate_pnl sdk tr a ta (Some v)))
          ''POST'' ''/api/analytics/pnl'' (Some (PDict d))
        \<and> ''options'' \<notin> keys d)
      \<and> calculate_pnl sdk tr a ta (Some v)
        = calculate_pnl sdk tr a ta None)
   \<and> ((\<exists>d. issues_one sdk (snd (consolidate sdk tr srcs rcv pc (Some v)))
          ''POST'' ''/api/wallets/consolidate'' (Some (PDict d))
        \<and> ''tokenAddress'' \<notin> keys d)
      \<and> consolidate sdk tr srcs rcv pc (Some v)
        = consolidate sdk tr srcs rcv pc None)"
  using assms by (intro conjI) (simp_all add: buy_def sell_def calculate_pnl_def consolidate_def Let_def param_def issues_one_def request_sent keys_setitem keys_Cons keys_Nil)

theorem falsy_optional_omitted_witness:
  "\<not> truthy (PInt 0) \<and> \<not> truthy (PBool False)
   \<and> (\<exists>d. issues_one example_sdk
          (snd (buy example_sdk (replies resp_ok) (PList [PStr ''W1'']) (PStr ''T1'') (PInt 1)
             None None None None (Some (PInt 0))))
          ''POST'' ''/api/tokens/buy'' (Some (PDict d))
        \<and> ''slippageBps'' \<notin> keys d)
   \<and> buy example_sdk (replies resp_ok) (PList [PStr ''W1'']) (PStr ''T1'') (PInt 1)
             None None None None (Some (PInt 0))
       = buy example_sdk (replies resp_ok) (PList [PStr ''W1'']) (PStr ''T1'') (PInt 1)
             None None None None None
   \<and> (\<exists>d. issues_one example_sdk
          (snd (calculate_pnl example_sdk (replies resp_ok) (PStr ''W1'') None (Some (PBool False))))
          ''POST'' ''/api/analytics/pnl'' (Some (PDict d))
        \<and> ''options'' \<notin> keys d)"
proof -
  have a: "\<not> truthy (PInt 0)" and b: "\<not> truthy (PBool False)" by simp_all
  show ?thesis
    using a b
      falsy_optional_omitted [OF a, where sdk = example_sdk and tr = "replies resp_ok"
        and w = "PList [PStr ''W1'']" and t = "PStr ''T1''" and s = "PInt 1"
        and p = None and aa = None and af = None and jt = None]
      falsy_optional_omitted [OF b, where sdk = example_sdk and tr = "replies resp_ok"
        and a = "PStr ''W1''" and ta = None]
    by blast
qed

section \<open>The credential is read-only\<close>

text \<open>
  C9. A call of \<open>request\<close>, of the health check or of any client method leaves the stored
  base URL, the stored API key and the session's headers, among them the
  \<open>Authorization\<close> header built from the key, as the constructor set them.
\<close>

theorem credentials_read_only:
  "credentials_kept sdk (snd (request sdk tr m e j))
   \<and> credentials_kept sdk (snd (health_check sdk tr))
   \<and> credentials_kept sdk (snd (buy sdk tr w t s p aa af jt sb))
   \<and> credentials_kept sdk (snd (sell sdk tr w t pc p aa af jt sb))
   \<and> credentials_kept sdk (snd (transfer sdk tr spk rcv t amt))
   \<and> credentials_kept sdk (snd (create sdk tr w mint cfg amts))
   \<and> credentials_kept sdk (snd (burn sdk tr wpk t amt))
   \<and> credentials_kept sdk (snd (cleaner sdk tr sa ba t sp bp))
   \<and> credentials_kept sdk (snd (send sdk tr txs rpc))
   \<and> credentials_kept sdk (snd (calculate_pnl sdk tr a ta it))
   \<and> credentials_kept sdk (snd (generate_mint sdk tr))
   \<and> credentials_kept sdk (snd (distribute sdk tr sender rcps))
   \<and> credentials_kept sdk (snd (consolidate sdk tr srcs rcv pc ta))"
  by (simp add: health_check_def buy_def sell_def transfer_def create_def burn_def cleaner_def send_def calculate_pnl_def generate_mint_def distribute_def consolidate_def Let_def request_credentials_kept)

end
